theory Spec2Isabelle
  imports Complex_Main
begin

section \<open>The geometry library the scripts call\<close>

text \<open>
  Both scripts (\<^verbatim>\<open>sample.py\<close> and \<^verbatim>\<open>show_land_outline.py\<close>) do their geometry through
  shapely, which is not part of the repository. Its operations are therefore a parameter
  of every function below: a record of the calls the scripts make, over an arbitrary type
  \<open>'g\<close> of geometries. A call that can raise returns an option, \<open>None\<close> standing for
  the exception. Coordinates are the JSON numbers of the response, read as reals, in the
  order the scripts build them: (lon, lat).
\<close>

type_synonym coord = "real \<times> real"

record 'g shapely =
  Polygon :: "coord list \<Rightarrow> 'g option"
  is_valid :: "'g \<Rightarrow> bool"
  is_empty :: "'g \<Rightarrow> bool"
  buffer :: "'g \<Rightarrow> real \<Rightarrow> 'g option"
  difference :: "'g \<Rightarrow> 'g \<Rightarrow> 'g option"
  intersection :: "'g \<Rightarrow> 'g \<Rightarrow> 'g option"
  unary_union :: "'g list \<Rightarrow> 'g option"
  bounds :: "'g \<Rightarrow> real \<times> real \<times> real \<times> real"
  box :: "real \<times> real \<times> real \<times> real \<Rightarrow> 'g"
  intersects :: "'g \<Rightarrow> 'g \<Rightarrow> bool"
  area :: "'g \<Rightarrow> real"

text \<open>The exceptions that can leave a script: Python's own, and any raised by shapely.\<close>

datatype py_error = KeyError | AttributeError | RuntimeError | ShapelyError

text \<open>
  The truth value of a geometry in \<^verbatim>\<open>if boundary and water\<close> and \<^verbatim>\<open>if land_union\<close>:
  shapely's \<^verbatim>\<open>__bool__\<close> is "not empty"; \<^verbatim>\<open>None\<close> is false.
\<close>

definition truthy :: "'g shapely \<Rightarrow> 'g option \<Rightarrow> bool" where
  "truthy L x = (case x of None \<Rightarrow> False | Some g \<Rightarrow> \<not> is_empty L g)"

section \<open>The Overpass response\<close>

text \<open>
  A response is a JSON object; \<open>None\<close> in a field is a key that is absent. A point
  \<^verbatim>\<open>{"lon": x, "lat": y}\<close> is the pair the scripts read from it.
\<close>

record member =
  m_type :: "string option"
  m_geometry :: "coord list option"

record element =
  e_type :: "string option"
  e_members :: "member list option"
  e_geometry :: "coord list option"

text \<open>The value of \<^verbatim>\<open>data["elements"]\<close>, \<open>None\<close> when the key is missing.\<close>

type_synonym response = "element list option"

section \<open>Fragments the two scripts share\<close>

text \<open>
  \<^verbatim>\<open>if coords[0] != coords[-1]: coords.append(coords[0])\<close>.
  Every use is guarded by a test that \<open>coords\<close> is not empty.
\<close>

definition close_ring :: "coord list \<Rightarrow> coord list" where
  "close_ring coords = (if hd coords \<noteq> last coords then coords @ [hd coords] else coords)"

text \<open>
  sample.py lines 44-50 and show_land_outline.py lines 73-75: a sequence of fewer than
  4 coordinates is skipped, any other is closed.
\<close>

definition build_ring :: "coord list \<Rightarrow> coord list option" where
  "build_ring coords = (if length coords < 4 then None else Some (close_ring coords))"

text \<open>
  The \<^verbatim>\<open>try\<close> block around the polygon constructor: \<open>None\<close> is the \<^verbatim>\<open>except\<close>
  branch (\<^verbatim>\<open>continue\<close>), otherwise the polygons appended (one or none).
\<close>

definition try_polygon :: "'g shapely \<Rightarrow> coord list \<Rightarrow> 'g list option" where
  "try_polygon L coords =
     (case Polygon L coords of
        None \<Rightarrow> None
      | Some poly \<Rightarrow> Some (if is_valid L poly \<and> \<not> is_empty L poly then [poly] else []))"

text \<open>\<^verbatim>\<open>if not g.is_valid: g = g.buffer(0)\<close>, as both scripts write it.\<close>

definition repair :: "'g shapely \<Rightarrow> 'g \<Rightarrow> py_error + 'g" where
  "repair L g =
     (if \<not> is_valid L g
      then (case buffer L g 0 of None \<Rightarrow> Inl ShapelyError | Some g' \<Rightarrow> Inr g')
      else Inr g)"

section \<open>sample.py\<close>

fun sample_member_coords :: "member list \<Rightarrow> py_error + coord list" where
  "sample_member_coords [] = Inr []"
| "sample_member_coords (m # ms) =
     (case m_type m of
        None \<Rightarrow> Inl KeyError
      | Some t \<Rightarrow>
          if t = ''way''
          then (case m_geometry m of
                  None \<Rightarrow> Inl KeyError
                | Some ps \<Rightarrow>
                    (case sample_member_coords ms of
                       Inl e \<Rightarrow> Inl e
                     | Inr cs \<Rightarrow> Inr (ps @ cs)))
          else sample_member_coords ms)"

fun sample_boundary_loop :: "'g shapely \<Rightarrow> element list \<Rightarrow> py_error + 'g option" where
  "sample_boundary_loop L [] = Inr None"
| "sample_boundary_loop L (el # els) =
     (case e_type el of
        None \<Rightarrow> Inl KeyError
      | Some t \<Rightarrow>
          if t = ''relation''
          then (case e_members el of
                  None \<Rightarrow> Inl KeyError
                | Some ms \<Rightarrow>
                    (case sample_member_coords ms of
                       Inl e \<Rightarrow> Inl e
                     | Inr coords \<Rightarrow>
                         (case Polygon L coords of
                            None \<Rightarrow> Inl ShapelyError
                          | Some poly \<Rightarrow> Inr (Some poly))))
          else sample_boundary_loop L els)"

text \<open>\<^verbatim>\<open>fetch_place_boundary\<close> of sample.py, on the response of its query.\<close>

definition sample_fetch_place_boundary :: "'g shapely \<Rightarrow> response \<Rightarrow> py_error + 'g option" where
  "sample_fetch_place_boundary L data =
     (case data of None \<Rightarrow> Inl KeyError | Some els \<Rightarrow> sample_boundary_loop L els)"

text \<open>One turn of the loop of \<^verbatim>\<open>fetch_water\<close>: the polygons it appends.\<close>

definition water_feature :: "'g shapely \<Rightarrow> element \<Rightarrow> 'g list" where
  "water_feature L el =
     (case e_geometry el of
        None \<Rightarrow> []
      | Some coords \<Rightarrow>
          (case build_ring coords of
             None \<Rightarrow> []
           | Some ring \<Rightarrow>
               (case try_polygon L ring of None \<Rightarrow> [] | Some ps \<Rightarrow> ps)))"

fun water_polys :: "'g shapely \<Rightarrow> element list \<Rightarrow> 'g list" where
  "water_polys L [] = []"
| "water_polys L (el # els) = water_feature L el @ water_polys L els"

text \<open>
  \<^verbatim>\<open>fetch_water\<close>: the first statement reads \<^verbatim>\<open>boundary.bounds\<close>, which raises on
  \<^verbatim>\<open>None\<close>; on a geometry it gives the four numbers that go into the query, whose
  response is \<open>data\<close>.
\<close>

definition fetch_water :: "'g shapely \<Rightarrow> 'g option \<Rightarrow> response \<Rightarrow> py_error + 'g option" where
  "fetch_water L boundary data =
     (case boundary of
        None \<Rightarrow> Inl AttributeError
      | Some b \<Rightarrow>
          (case data of
             None \<Rightarrow> Inl KeyError
           | Some els \<Rightarrow>
               (let wp = water_polys L els in
                if wp \<noteq> []
                then (case unary_union L wp of
                        None \<Rightarrow> Inl ShapelyError
                      | Some u \<Rightarrow> Inr (Some u))
                else Inr None)))"

text \<open>Lines 67-75 of \<^verbatim>\<open>land_only_boundary\<close>: the difference, once both are fetched.\<close>

definition subtract_water :: "'g shapely \<Rightarrow> 'g option \<Rightarrow> 'g option \<Rightarrow> py_error + 'g option" where
  "subtract_water L boundary water =
     (if truthy L boundary \<and> truthy L water
      then (case (boundary, water) of
              (Some b, Some w) \<Rightarrow>
                (case repair L b of
                   Inl e \<Rightarrow> Inl e
                 | Inr b' \<Rightarrow>
                     (case repair L w of
                        Inl e \<Rightarrow> Inl e
                      | Inr w' \<Rightarrow>
                          (case difference L b' w' of
                             None \<Rightarrow> Inl ShapelyError
                           | Some land \<Rightarrow> Inr (Some land))))
            | _ \<Rightarrow> Inr boundary)
      else Inr boundary)"

definition land_only_boundary :: "'g shapely \<Rightarrow> response \<Rightarrow> response \<Rightarrow> py_error + 'g option" where
  "land_only_boundary L bdata wdata =
     (case sample_fetch_place_boundary L bdata of
        Inl e \<Rightarrow> Inl e
      | Inr boundary \<Rightarrow>
          (case fetch_water L boundary wdata of
             Inl e \<Rightarrow> Inl e
           | Inr water \<Rightarrow> subtract_water L boundary water))"

section \<open>show_land_outline.py\<close>

fun member_coords :: "member list \<Rightarrow> coord list" where
  "member_coords [] = []"
| "member_coords (m # ms) =
     (if m_type m = Some ''way''
      then (case m_geometry m of None \<Rightarrow> member_coords ms | Some ps \<Rightarrow> ps @ member_coords ms)
      else member_coords ms)"

text \<open>
  Lines 52-69, the coordinates nested under member ways. \<open>None\<close>: the constructor
  raised and \<^verbatim>\<open>continue\<close> left the element.
\<close>

definition members_strategy :: "'g shapely \<Rightarrow> element \<Rightarrow> 'g list option" where
  "members_strategy L el =
     (if e_type el = Some ''relation''
      then (case e_members el of
              None \<Rightarrow> Some []
            | Some ms \<Rightarrow>
                (let coords = member_coords ms in
                 if coords \<noteq> [] then try_polygon L (close_ring coords) else Some []))
      else Some [])"

text \<open>Lines 71-81, the coordinates directly on the element.\<close>

definition geometry_strategy :: "'g shapely \<Rightarrow> element \<Rightarrow> 'g list option" where
  "geometry_strategy L el =
     (if e_type el = Some ''relation''
      then (case e_geometry el of
              None \<Rightarrow> Some []
            | Some coords \<Rightarrow>
                (case build_ring coords of
                   None \<Rightarrow> Some []
                 | Some ring \<Rightarrow> try_polygon L ring))
      else Some [])"

text \<open>One turn of the loop over the elements: what it appends to \<^verbatim>\<open>geoms\<close>.\<close>

definition element_geoms :: "'g shapely \<Rightarrow> element \<Rightarrow> 'g list" where
  "element_geoms L el =
     (case members_strategy L el of
        None \<Rightarrow> []
      | Some ps \<Rightarrow>
          (case geometry_strategy L el of None \<Rightarrow> ps | Some qs \<Rightarrow> ps @ qs))"

fun boundary_geoms :: "'g shapely \<Rightarrow> element list \<Rightarrow> 'g list" where
  "boundary_geoms L [] = []"
| "boundary_geoms L (el # els) = element_geoms L el @ boundary_geoms L els"

text \<open>
  \<^verbatim>\<open>fetch_place_boundary\<close> of show_land_outline.py;
  \<^verbatim>\<open>data.get("elements", [])\<close> reads a missing key as no element.
\<close>

definition fetch_place_boundary :: "'g shapely \<Rightarrow> response \<Rightarrow> py_error + 'g" where
  "fetch_place_boundary L data =
     (let geoms = boundary_geoms L (case data of None \<Rightarrow> [] | Some els \<Rightarrow> els) in
      if geoms = [] then Inl RuntimeError
      else if length geoms = 1 then Inr (hd geoms)
      else (case unary_union L geoms of None \<Rightarrow> Inl ShapelyError | Some u \<Rightarrow> Inr u))"

text \<open>
  Line 122-123: the mask \<^verbatim>\<open>land_gdf.intersects(bbox_poly)\<close>, one truth value per row, and
  the rows it selects.
\<close>

definition prefilter :: "'g shapely \<Rightarrow> 'g list \<Rightarrow> 'g \<Rightarrow> 'g list" where
  "prefilter L land_gdf boundary_geom =
     (let bbox_poly = box L (bounds L boundary_geom);
          mask = map (\<lambda>g. intersects L g bbox_poly) land_gdf
      in map fst (filter snd (zip land_gdf mask)))"

text \<open>Line 135: the union of the filtered rows; the outer \<open>None\<close> is an exception.\<close>

definition land_union_of :: "'g shapely \<Rightarrow> 'g list \<Rightarrow> 'g option option" where
  "land_union_of L land_subset =
     (if length land_subset > 0
      then (case unary_union L land_subset of None \<Rightarrow> None | Some u \<Rightarrow> Some (Some u))
      else Some None)"

text \<open>Lines 136-139: the intersection, or the boundary itself; \<open>None\<close> is an exception.\<close>

definition clamp_intersection :: "'g shapely \<Rightarrow> 'g \<Rightarrow> 'g option \<Rightarrow> 'g option" where
  "clamp_intersection L boundary_geom land_union =
     (if truthy L land_union
      then (case land_union of
              None \<Rightarrow> Some boundary_geom
            | Some u \<Rightarrow> intersection L boundary_geom u)
      else Some boundary_geom)"

text \<open>Lines 142-149: the loop of the \<^verbatim>\<open>except\<close> branch.\<close>

fun per_feature_parts :: "'g shapely \<Rightarrow> 'g \<Rightarrow> 'g list \<Rightarrow> 'g list" where
  "per_feature_parts L boundary_geom [] = []"
| "per_feature_parts L boundary_geom (geom # rest) =
     (case intersection L geom boundary_geom of
        None \<Rightarrow> per_feature_parts L boundary_geom rest
      | Some part \<Rightarrow>
          if \<not> is_empty L part
          then part # per_feature_parts L boundary_geom rest
          else per_feature_parts L boundary_geom rest)"

text \<open>Line 150, which no \<^verbatim>\<open>try\<close> encloses.\<close>

definition clamp_fallback :: "'g shapely \<Rightarrow> 'g \<Rightarrow> 'g list \<Rightarrow> py_error + 'g" where
  "clamp_fallback L boundary_geom land_subset =
     (let parts = per_feature_parts L boundary_geom land_subset in
      if parts \<noteq> []
      then (case unary_union L parts of None \<Rightarrow> Inl ShapelyError | Some u \<Rightarrow> Inr u)
      else Inr boundary_geom)"

text \<open>
  What \<^verbatim>\<open>main\<close> prints, one constructor per \<^verbatim>\<open>print\<close> statement, in source order. The
  two messages about the shapefile's reference system (lines 101 and 104) belong to
  loading the file, which is input here, and are left out.
\<close>

datatype event =
  LoadingLand | FetchingBoundary | FilteringBBox | NoLandInBBox | Intersecting
  | UnionFailed | MapSaved

text \<open>Lines 133-150: the \<^verbatim>\<open>try\<close> statement, with what it prints.\<close>

definition clamp_stage :: "'g shapely \<Rightarrow> 'g \<Rightarrow> 'g list \<Rightarrow> event list \<times> (py_error + 'g)" where
  "clamp_stage L boundary_geom land_subset =
     (case (case land_union_of L land_subset of
              None \<Rightarrow> None
            | Some land_union \<Rightarrow> clamp_intersection L boundary_geom land_union) of
        Some clamped \<Rightarrow> ([], Inr clamped)
      | None \<Rightarrow> ([UnionFailed], clamp_fallback L boundary_geom land_subset))"

text \<open>
  \<^verbatim>\<open>main\<close>, on the rows of the shapefile (already in EPSG:4326) and the response of the
  boundary query. It returns what was printed and either the exception that ended the run
  or the two geometries handed to the map: the repaired boundary and the clamped outline.
\<close>

definition main :: "'g shapely \<Rightarrow> 'g list \<Rightarrow> response \<Rightarrow> event list \<times> (py_error + 'g \<times> 'g)" where
  "main L land_gdf data =
     (case fetch_place_boundary L data of
        Inl e \<Rightarrow> ([LoadingLand, FetchingBoundary], Inl e)
      | Inr fetched \<Rightarrow>
          (case repair L fetched of
             Inl e \<Rightarrow> ([LoadingLand, FetchingBoundary], Inl e)
           | Inr boundary_geom \<Rightarrow>
               (let land_subset = prefilter L land_gdf boundary_geom;
                    printed = [LoadingLand, FetchingBoundary, FilteringBBox]
                      @ (if land_subset = [] then [NoLandInBBox] else [])
                      @ [Intersecting]
                in (case clamp_stage L boundary_geom land_subset of
                      (evs, Inl e) \<Rightarrow> (printed @ evs, Inl e)
                    | (evs, Inr clamped) \<Rightarrow>
                        (case repair L clamped of
                           Inl e \<Rightarrow> (printed @ evs, Inl e)
                         | Inr clamped_geom \<Rightarrow>
                             (printed @ evs @ [MapSaved],
                              Inr (boundary_geom, clamped_geom)))))))"

section \<open>A small geometry library to run the scripts on\<close>

text \<open>
  To evaluate the scripts on concrete input the library parameter needs a value. This one
  works on a 5 by 5 board of unit cells: a geometry is a validity flag and the list of
  cells it covers, and the set operations are those of cell lists. The constructor takes
  the cells inside the bounding rectangle of the ring, which is the polygon itself for the
  axis-parallel rectangles with integer corners that the examples below use; like shapely
  it raises on one or two coordinates. The area is the number of cells.
\<close>

type_synonym grid = "bool \<times> (nat \<times> nat) list"

definition grid_axis :: "nat list" where
  "grid_axis = [0, 1, 2, 3, 4]"

definition raster :: "real \<times> real \<times> real \<times> real \<Rightarrow> (nat \<times> nat) list" where
  "raster b =
     (case b of (minx, miny, maxx, maxy) \<Rightarrow>
        filter (\<lambda>(i, j). minx \<le> real i \<and> real i + 1 \<le> maxx \<and> miny \<le> real j \<and> real j + 1 \<le> maxy)
          (List.product grid_axis grid_axis))"

definition coords_bounds :: "coord list \<Rightarrow> real \<times> real \<times> real \<times> real" where
  "coords_bounds coords =
     (fold min (map fst coords) (fst (hd coords)), fold min (map snd coords) (snd (hd coords)),
      fold max (map fst coords) (fst (hd coords)), fold max (map snd coords) (snd (hd coords)))"

definition grid_Polygon :: "coord list \<Rightarrow> grid option" where
  "grid_Polygon coords =
     (if coords = [] then Some (True, [])
      else if length coords < 3 then None
      else (let cs = raster (coords_bounds coords) in Some (cs \<noteq> [], cs)))"

definition grid_bounds :: "grid \<Rightarrow> real \<times> real \<times> real \<times> real" where
  "grid_bounds g =
     (case snd g of
        [] \<Rightarrow> (0, 0, 0, 0)
      | c # cs \<Rightarrow>
          (real (fold min (map fst cs) (fst c)), real (fold min (map snd cs) (snd c)),
           real (fold max (map fst cs) (fst c)) + 1, real (fold max (map snd cs) (snd c)) + 1))"

definition grid_lib :: "grid shapely" where
  "grid_lib =
     \<lparr> Polygon = grid_Polygon,
       is_valid = fst,
       is_empty = (\<lambda>g. snd g = []),
       buffer = (\<lambda>g d. Some (True, snd g)),
       difference = (\<lambda>a b. Some (True, filter (\<lambda>c. c \<notin> set (snd b)) (snd a))),
       intersection = (\<lambda>a b. Some (True, filter (\<lambda>c. c \<in> set (snd b)) (snd a))),
       unary_union = (\<lambda>gs. Some (True, remdups (concat (map snd gs)))),
       bounds = grid_bounds,
       box = (\<lambda>b. (True, raster b)),
       intersects = (\<lambda>a b. filter (\<lambda>c. c \<in> set (snd b)) (snd a) \<noteq> []),
       area = (\<lambda>g. real (length (remdups (snd g)))) \<rparr>"

text \<open>A library whose batch union always raises, otherwise the same.\<close>

definition union_fails_lib :: "grid shapely" where
  "union_fails_lib = grid_lib \<lparr> unary_union := (\<lambda>gs. None) \<rparr>"

text \<open>Rings and responses for the examples.\<close>

definition unit_square :: "coord list" where
  "unit_square = [(0, 0), (1, 0), (1, 1), (0, 1), (0, 0)]"

definition big_square :: "coord list" where
  "big_square = [(0, 0), (2, 0), (2, 2), (0, 2), (0, 0)]"

definition way :: "coord list \<Rightarrow> member" where
  "way ps = \<lparr> m_type = Some ''way'', m_geometry = Some ps \<rparr>"

definition relation_of_ways :: "coord list \<Rightarrow> element" where
  "relation_of_ways ps =
     \<lparr> e_type = Some ''relation'', e_members = Some [way ps], e_geometry = None \<rparr>"

definition water_way :: "coord list \<Rightarrow> element" where
  "water_way ps = \<lparr> e_type = Some ''way'', e_members = None, e_geometry = Some ps \<rparr>"

definition open_square :: "coord list" where
  "open_square = [(0, 0), (1, 0), (1, 1), (0, 1)]"

definition triangle :: "coord list" where
  "triangle = [(0, 0), (1, 0), (0, 1)]"

definition collinear :: "coord list" where
  "collinear = [(0, 0), (1, 0), (2, 0), (0, 0)]"

text \<open>A relation that carries the same ring under a member way and on itself.\<close>

definition both_shapes :: element where
  "both_shapes =
     \<lparr> e_type = Some ''relation'', e_members = Some [way unit_square],
       e_geometry = Some unit_square \<rparr>"

text \<open>A relation whose only member way has a single point, with a good ring on itself.\<close>

definition point_and_shape :: element where
  "point_and_shape =
     \<lparr> e_type = Some ''relation'', e_members = Some [way [(0, 0)]],
       e_geometry = Some unit_square \<rparr>"

text \<open>
  An L-shaped land polygon along the left and top edge of the board, and a boundary in the
  lower right: their bounding rectangles overlap, the polygons are a cell apart.
\<close>

definition ell :: grid where
  "ell = (True, [(0, 0), (0, 1), (0, 2), (0, 3), (0, 4), (1, 4), (2, 4), (3, 4), (4, 4)])"

definition corner :: grid where
  "corner = (True, [(2, 0), (2, 1), (3, 0), (3, 1)])"

text \<open>Water features: two good rings, one too short, one without area.\<close>

definition mixed_water :: "element list" where
  "mixed_water =
     [water_way big_square, water_way triangle, water_way collinear, water_way open_square]"

text \<open>
  A library that, like GEOS on invalid input, raises in the union and the intersection when
  an operand is invalid; otherwise the same as above.
\<close>

definition strict_lib :: "grid shapely" where
  "strict_lib =
     grid_lib \<lparr> intersection := (\<lambda>a b. if fst a \<and> fst b then intersection grid_lib a b else None),
                unary_union := (\<lambda>gs. if list_all fst gs then unary_union grid_lib gs else None) \<rparr>"

text \<open>Two land polygons over the boundary cell, the second one invalid.\<close>

definition left_column :: grid where
  "left_column = (True, [(0, 0), (0, 1)])"

definition broken_row :: grid where
  "broken_row = (False, [(0, 0), (1, 0)])"

text \<open>A water ring far from the unit square.\<close>

definition far_square :: "coord list" where
  "far_square = [(3, 3), (4, 3), (4, 4), (3, 4), (3, 3)]"

text \<open>A closed ring of three coordinates, as a member way can carry it.\<close>

definition three_ring :: "coord list" where
  "three_ring = [(0, 0), (1, 0), (0, 0)]"

text \<open>
  A figure of eight: two unit squares that meet in the point (1, 1), the first walked
  counter-clockwise and the second clockwise.
\<close>

definition figure_eight :: "coord list" where
  "figure_eight = [(1, 1), (2, 1), (2, 2), (1, 2), (1, 1), (1, 0), (0, 0), (0, 1), (1, 1)]"

text \<open>
  A library in which, as in shapely, a ring that passes twice through a vertex gives an
  invalid polygon, and in which the area of an invalid polygon is 0, as the signed areas
  of the two lobes of the figure of eight cancel. The difference and the intersection keep
  the validity of their first operand; the rest is as above.
\<close>

definition signed_lib :: "grid shapely" where
  "signed_lib =
     grid_lib \<lparr> Polygon := (\<lambda>coords. case grid_Polygon coords of
                              None \<Rightarrow> None
                            | Some g \<Rightarrow> Some (fst g \<and> distinct (butlast coords), snd g)),
                difference := (\<lambda>a b. Some (fst a, filter (\<lambda>c. c \<notin> set (snd b)) (snd a))),
                intersection := (\<lambda>a b. Some (fst a, filter (\<lambda>c. c \<in> set (snd b)) (snd a))),
                area := (\<lambda>g. if fst g then real (length (remdups (snd g))) else 0) \<rparr>"

lemmas grid_simps =
  grid_lib_def grid_Polygon_def raster_def coords_bounds_def grid_bounds_def grid_axis_def
  union_fails_lib_def unit_square_def big_square_def open_square_def triangle_def
  collinear_def way_def relation_of_ways_def water_way_def both_shapes_def point_and_shape_def ell_def corner_def
  mixed_water_def strict_lib_def left_column_def broken_row_def far_square_def
  three_ring_def figure_eight_def signed_lib_def

lemmas script_simps =
  truthy_def close_ring_def build_ring_def try_polygon_def repair_def
  sample_fetch_place_boundary_def water_feature_def fetch_water_def subtract_water_def
  land_only_boundary_def members_strategy_def geometry_strategy_def element_geoms_def
  fetch_place_boundary_def prefilter_def land_union_of_def clamp_intersection_def
  clamp_fallback_def clamp_stage_def main_def

section \<open>Building rings\<close>

text \<open>
  C3 (as the spec states it, refuted): ring building is said to fail exactly when fewer
  than 3 distinct coordinates remain after removing consecutive duplicates. The scripts
  test the raw length against 4 and remove nothing: three distinct coordinates, a triangle
  that the constructor would accept once closed, are skipped.
\<close>

theorem build_ring_triangle_counterexample:
  "\<not> (build_ring triangle = None \<longleftrightarrow> length (remdups (remdups_adj triangle)) < 3)
   \<and> water_feature grid_lib (water_way triangle) = []
   \<and> try_polygon grid_lib (close_ring triangle) = Some [(True, [(0, 0)])]"
  by (simp add: script_simps grid_simps)

text \<open>
  C3 (amended): at the two guarded sites (the water features of sample.py, lines 44-50,
  and the geometry directly on a relation in show_land_outline.py, lines 71-75) ring
  building fails exactly when the raw sequence has fewer than 4 coordinates, and then the
  feature contributes no polygon; every ring built there is closed (first coordinate
  equal to the last), has at least 4 points, and is the input with its first coordinate
  appended when the input was not already closed. The member-way path of
  show_land_outline.py (lines 56-63) rejects only an empty sequence and hands any other,
  closed in the same way, to the constructor, whatever its length. The boundary of
  sample.py (lines 19-20) hands the concatenated member coordinates to the constructor as
  they are, neither guarded nor closed.
\<close>

theorem build_ring_contract:
  "(build_ring coords = None \<longleftrightarrow> length coords < 4)
   \<and> (\<forall>ring. build_ring coords = Some ring \<longrightarrow>
         4 \<le> length ring \<and> hd ring = last ring
         \<and> ring = (if hd coords = last coords then coords else coords @ [hd coords]))
   \<and> (e_geometry el = Some coords \<and> length coords < 4 \<longrightarrow>
         water_feature L el = [] \<and> geometry_strategy L el = Some [])
   \<and> (e_geometry el = Some coords \<and> 4 \<le> length coords \<longrightarrow>
         water_feature L el
           = (case try_polygon L (close_ring coords) of None \<Rightarrow> [] | Some ps \<Rightarrow> ps)
         \<and> (e_type el = Some ''relation'' \<longrightarrow>
              geometry_strategy L el = try_polygon L (close_ring coords)))
   \<and> (e_type el = Some ''relation'' \<and> e_members el = Some ms \<and> member_coords ms = [] \<longrightarrow>
         members_strategy L el = Some [])
   \<and> (e_type el = Some ''relation'' \<and> e_members el = Some ms \<and> member_coords ms \<noteq> [] \<longrightarrow>
         members_strategy L el = try_polygon L (close_ring (member_coords ms))
         \<and> hd (close_ring (member_coords ms)) = last (close_ring (member_coords ms))
         \<and> close_ring (member_coords ms)
             = (if hd (member_coords ms) = last (member_coords ms) then member_coords ms
                else member_coords ms @ [hd (member_coords ms)]))
   \<and> (e_type el = Some ''relation'' \<and> e_members el = Some ms
        \<and> sample_member_coords ms = Inr cs \<longrightarrow>
         sample_boundary_loop L (el # els)
           = (case Polygon L cs of None \<Rightarrow> Inl ShapelyError | Some poly \<Rightarrow> Inr (Some poly)))"
proof -
  have closed: "hd (close_ring cs) = last (close_ring cs)" if "cs \<noteq> []" for cs :: "coord list"
    using that by (cases cs) (simp_all add: close_ring_def)
  have long: "length cs \<le> length (close_ring cs)" for cs :: "coord list"
    by (simp add: close_ring_def)
  have shape: "close_ring cs = (if hd cs = last cs then cs else cs @ [hd cs])"
    for cs :: "coord list"
    by (simp add: close_ring_def)
  have built: "4 \<le> length ring \<and> hd ring = last ring
        \<and> ring = (if hd coords = last coords then coords else coords @ [hd coords])"
    if "build_ring coords = Some ring" for ring
  proof -
    from that have n: "4 \<le> length coords" and r: "ring = close_ring coords"
      by (auto simp: build_ring_def split: if_splits)
    from n have "coords \<noteq> []" by auto
    with closed long [of coords] n r show ?thesis
      by (auto simp: close_ring_def)
  qed
  have fails: "build_ring coords = None \<longleftrightarrow> length coords < 4"
    by (simp add: build_ring_def)
  have short: "water_feature L el = [] \<and> geometry_strategy L el = Some []"
    if "e_geometry el = Some coords \<and> length coords < 4"
    using that by (simp add: water_feature_def geometry_strategy_def build_ring_def)
  have enough: "water_feature L el
           = (case try_polygon L (close_ring coords) of None \<Rightarrow> [] | Some ps \<Rightarrow> ps)
         \<and> (e_type el = Some ''relation'' \<longrightarrow>
              geometry_strategy L el = try_polygon L (close_ring coords))"
    if "e_geometry el = Some coords \<and> 4 \<le> length coords"
    using that by (simp add: water_feature_def geometry_strategy_def build_ring_def)
  have none: "members_strategy L el = Some []"
    if "e_type el = Some ''relation'' \<and> e_members el = Some ms \<and> member_coords ms = []"
    using that by (simp add: members_strategy_def)
  have some: "members_strategy L el = try_polygon L (close_ring (member_coords ms))
         \<and> hd (close_ring (member_coords ms)) = last (close_ring (member_coords ms))
         \<and> close_ring (member_coords ms)
             = (if hd (member_coords ms) = last (member_coords ms) then member_coords ms
                else member_coords ms @ [hd (member_coords ms)])"
    if "e_type el = Some ''relation'' \<and> e_members el = Some ms \<and> member_coords ms \<noteq> []"
  proof -
    from that have "members_strategy L el = try_polygon L (close_ring (member_coords ms))"
      by (simp add: members_strategy_def Let_def)
    with that closed [of "member_coords ms"] shape [of "member_coords ms"] show ?thesis
      by blast
  qed
  have sample: "sample_boundary_loop L (el # els)
           = (case Polygon L cs of None \<Rightarrow> Inl ShapelyError | Some poly \<Rightarrow> Inr (Some poly))"
    if "e_type el = Some ''relation'' \<and> e_members el = Some ms
        \<and> sample_member_coords ms = Inr cs"
    using that by simp
  from built fails short enough none some sample show ?thesis by blast
qed

theorem build_ring_contract_witness:
  "build_ring open_square = Some unit_square
   \<and> 4 \<le> length unit_square \<and> hd unit_square = last unit_square
   \<and> water_feature grid_lib (water_way triangle) = []
   \<and> members_strategy grid_lib (relation_of_ways triangle) = Some [(True, [(0, 0)])]
   \<and> members_strategy grid_lib (relation_of_ways three_ring) = try_polygon grid_lib three_ring
   \<and> length three_ring = 3
   \<and> sample_boundary_loop grid_lib [relation_of_ways open_square] = Inr (Some (True, [(0, 0)]))
   \<and> Polygon grid_lib open_square = Some (True, [(0, 0)])"
proof -
  have b: "build_ring open_square = Some unit_square"
    by (simp add: script_simps grid_simps)
  have e: "e_geometry (water_way triangle) = Some triangle \<and> length triangle < 4"
    by (simp add: grid_simps)
  have t: "e_type (relation_of_ways triangle) = Some ''relation''
           \<and> e_members (relation_of_ways triangle) = Some [way triangle]
           \<and> member_coords [way triangle] \<noteq> []"
    and tc: "close_ring (member_coords [way triangle]) = [(0, 0), (1, 0), (0, 1), (0, 0)]"
    and tp: "try_polygon grid_lib [(0, 0), (1, 0), (0, 1), (0, 0)] = Some [(True, [(0, 0)])]"
    by (simp_all add: script_simps grid_simps)
  have r: "e_type (relation_of_ways three_ring) = Some ''relation''
           \<and> e_members (relation_of_ways three_ring) = Some [way three_ring]
           \<and> member_coords [way three_ring] \<noteq> []"
    and rc: "close_ring (member_coords [way three_ring]) = three_ring"
    and rl: "length three_ring = 3"
    by (simp_all add: script_simps grid_simps)
  have s: "e_type (relation_of_ways open_square) = Some ''relation''
           \<and> e_members (relation_of_ways open_square) = Some [way open_square]
           \<and> sample_member_coords [way open_square] = Inr open_square"
    and sp: "Polygon grid_lib open_square = Some (True, [(0, 0)])"
    by (simp_all add: grid_simps)
  from build_ring_contract [of open_square "water_way triangle" grid_lib] b
  have "4 \<le> length unit_square \<and> hd unit_square = last unit_square" by blast
  moreover from build_ring_contract [of triangle "water_way triangle" grid_lib] e
  have "water_feature grid_lib (water_way triangle) = []" by blast
  moreover from build_ring_contract
    [of triangle "relation_of_ways triangle" grid_lib "[way triangle]"] t tc tp
  have "members_strategy grid_lib (relation_of_ways triangle) = Some [(True, [(0, 0)])]"
    by simp
  moreover from build_ring_contract
    [of triangle "relation_of_ways three_ring" grid_lib "[way three_ring]"] r rc
  have "members_strategy grid_lib (relation_of_ways three_ring) = try_polygon grid_lib three_ring"
    by simp
  moreover from build_ring_contract
    [of triangle "relation_of_ways open_square" grid_lib "[way open_square]" open_square "[]"] s sp
  have "sample_boundary_loop grid_lib [relation_of_ways open_square] = Inr (Some (True, [(0, 0)]))"
    by simp
  ultimately show ?thesis using b rl sp by blast
qed

section \<open>Collecting polygons\<close>

lemma try_polygon_sound:
  assumes "try_polygon L ring = Some ps" and "p \<in> set ps"
  shows "is_valid L p \<and> \<not> is_empty L p \<and> Polygon L ring = Some p"
  using assms by (auto simp: try_polygon_def split: option.splits if_splits)

lemma water_feature_sound:
  assumes "p \<in> set (water_feature L el)"
  shows "is_valid L p \<and> \<not> is_empty L p
         \<and> (\<exists>coords ring. e_geometry el = Some coords \<and> build_ring coords = Some ring
               \<and> Polygon L ring = Some p)"
proof (cases "e_geometry el")
  case None
  with assms show ?thesis by (simp add: water_feature_def)
next
  case (Some coords)
  show ?thesis
  proof (cases "build_ring coords")
    case None
    with Some assms show ?thesis by (simp add: water_feature_def)
  next
    case ring: (Some ring)
    show ?thesis
    proof (cases "try_polygon L ring")
      case None
      with Some ring assms show ?thesis by (simp add: water_feature_def)
    next
      case ps: (Some ps)
      with Some ring assms have "p \<in> set ps" by (simp add: water_feature_def)
      with ps Some ring show ?thesis using try_polygon_sound [of L ring ps p] by blast
    qed
  qed
qed

lemma members_strategy_sound:
  assumes "members_strategy L el = Some ps" and "p \<in> set ps"
  shows "is_valid L p \<and> \<not> is_empty L p \<and> (\<exists>ring. Polygon L ring = Some p)"
proof -
  from assms have "\<exists>ring. try_polygon L ring = Some ps"
    by (cases "e_members el") (auto simp: members_strategy_def Let_def split: if_splits)
  with assms(2) show ?thesis using try_polygon_sound [of L _ ps p] by blast
qed

lemma geometry_strategy_sound:
  assumes "geometry_strategy L el = Some ps" and "p \<in> set ps"
  shows "is_valid L p \<and> \<not> is_empty L p \<and> (\<exists>ring. Polygon L ring = Some p)"
proof -
  from assms have "\<exists>ring. try_polygon L ring = Some ps"
    by (cases "e_geometry el"; cases "build_ring (the (e_geometry el))")
       (auto simp: geometry_strategy_def split: if_splits)
  with assms(2) show ?thesis using try_polygon_sound [of L _ ps p] by blast
qed

lemma element_geoms_sound:
  assumes "p \<in> set (element_geoms L el)"
  shows "is_valid L p \<and> \<not> is_empty L p \<and> (\<exists>ring. Polygon L ring = Some p)"
proof (cases "members_strategy L el")
  case None
  with assms show ?thesis by (simp add: element_geoms_def)
next
  case (Some ps)
  show ?thesis
  proof (cases "geometry_strategy L el")
    case None
    with Some assms have "p \<in> set ps" by (simp add: element_geoms_def)
    with Some show ?thesis using members_strategy_sound [of L el ps p] by blast
  next
    case qs: (Some qs)
    with Some assms have "p \<in> set ps \<or> p \<in> set qs" by (simp add: element_geoms_def)
    with Some qs show ?thesis
      using members_strategy_sound [of L el ps p] geometry_strategy_sound [of L el qs p]
      by blast
  qed
qed

lemma water_polys_append: "water_polys L (xs @ ys) = water_polys L xs @ water_polys L ys"
  by (induction xs) simp_all

lemma boundary_geoms_append:
  "boundary_geoms L (xs @ ys) = boundary_geoms L xs @ boundary_geoms L ys"
  by (induction xs) simp_all

lemma set_water_polys: "set (water_polys L els) = (\<Union>el \<in> set els. set (water_feature L el))"
  by (induction els) auto

lemma set_boundary_geoms:
  "set (boundary_geoms L els) = (\<Union>el \<in> set els. set (element_geoms L el))"
  by (induction els) auto

text \<open>
  C10: every polygon the loops append to \<^verbatim>\<open>water_polys\<close> or \<^verbatim>\<open>geoms\<close> is valid and not
  empty, and is the constructor's own result on a ring of some feature (nothing is
  repaired on the way in). A ring whose constructor raises, or whose polygon is invalid or
  empty, adds nothing, and the loop goes on with the remaining features as if the skipped
  one had not been there.
\<close>

theorem ingestion_invariant:
  "(\<forall>p \<in> set (water_polys L els).
      is_valid L p \<and> \<not> is_empty L p
      \<and> (\<exists>el \<in> set els. \<exists>coords ring. e_geometry el = Some coords
            \<and> build_ring coords = Some ring \<and> Polygon L ring = Some p))
   \<and> (\<forall>p \<in> set (boundary_geoms L els).
        is_valid L p \<and> \<not> is_empty L p \<and> (\<exists>ring. Polygon L ring = Some p))
   \<and> (Polygon L ring = None \<longrightarrow> try_polygon L ring = None)
   \<and> (Polygon L ring = Some q \<and> (\<not> is_valid L q \<or> is_empty L q) \<longrightarrow> try_polygon L ring = Some [])
   \<and> (e_geometry el = Some coords \<and> build_ring coords = Some ring
        \<and> try_polygon L ring \<in> {None, Some []} \<longrightarrow>
        water_polys L (xs @ el # ys) = water_polys L xs @ water_polys L ys)
   \<and> ((members_strategy L el = None
         \<or> members_strategy L el = Some [] \<and> geometry_strategy L el \<in> {None, Some []}) \<longrightarrow>
        boundary_geoms L (xs @ el # ys) = boundary_geoms L xs @ boundary_geoms L ys)"
proof -
  have water: "is_valid L p \<and> \<not> is_empty L p
      \<and> (\<exists>el \<in> set els. \<exists>coords ring. e_geometry el = Some coords
            \<and> build_ring coords = Some ring \<and> Polygon L ring = Some p)"
    if "p \<in> set (water_polys L els)" for p
  proof -
    from that obtain el where "el \<in> set els" "p \<in> set (water_feature L el)"
      by (auto simp: set_water_polys)
    then show ?thesis using water_feature_sound [of p L el] by blast
  qed
  have boundary: "is_valid L p \<and> \<not> is_empty L p \<and> (\<exists>ring. Polygon L ring = Some p)"
    if "p \<in> set (boundary_geoms L els)" for p
  proof -
    from that obtain el where "el \<in> set els" "p \<in> set (element_geoms L el)"
      by (auto simp: set_boundary_geoms)
    then show ?thesis using element_geoms_sound [of p L el] by blast
  qed
  have raised: "Polygon L ring = None \<longrightarrow> try_polygon L ring = None"
    by (simp add: try_polygon_def)
  have unfit: "Polygon L ring = Some q \<and> (\<not> is_valid L q \<or> is_empty L q) \<longrightarrow>
      try_polygon L ring = Some []"
    by (auto simp: try_polygon_def)
  have skip_water: "water_polys L (xs @ el # ys) = water_polys L xs @ water_polys L ys"
    if "e_geometry el = Some coords \<and> build_ring coords = Some ring
        \<and> try_polygon L ring \<in> {None, Some []}"
  proof -
    from that have "water_feature L el = []"
      by (auto simp: water_feature_def)
    then show ?thesis by (simp add: water_polys_append)
  qed
  have skip_boundary: "boundary_geoms L (xs @ el # ys) = boundary_geoms L xs @ boundary_geoms L ys"
    if "members_strategy L el = None
         \<or> members_strategy L el = Some [] \<and> geometry_strategy L el \<in> {None, Some []}"
  proof -
    from that have "element_geoms L el = []"
      by (auto simp: element_geoms_def)
    then show ?thesis by (simp add: boundary_geoms_append)
  qed
  from water boundary raised unfit skip_water skip_boundary show ?thesis by blast
qed

theorem ingestion_invariant_witness:
  "water_polys grid_lib mixed_water = [(True, [(0, 0), (0, 1), (1, 0), (1, 1)]), (True, [(0, 0)])]
   \<and> is_valid grid_lib (True, [(0, 0)]) \<and> \<not> is_empty grid_lib (True, [(0, 0)])
   \<and> try_polygon grid_lib collinear = Some []
   \<and> water_polys grid_lib ([water_way big_square] @ water_way collinear # [water_way open_square])
       = water_polys grid_lib [water_way big_square] @ water_polys grid_lib [water_way open_square]"
proof -
  have w: "water_polys grid_lib mixed_water = [(True, [(0, 0), (0, 1), (1, 0), (1, 1)]), (True, [(0, 0)])]"
    by (simp add: script_simps grid_simps)
  then have m: "(True, [(0, 0)]) \<in> set (water_polys grid_lib mixed_water)" by simp
  have c: "Polygon grid_lib collinear = Some (False, [])
           \<and> (\<not> is_valid grid_lib (False, []) \<or> is_empty grid_lib (False, []))"
    by (simp add: grid_simps)
  have g: "e_geometry (water_way collinear) = Some collinear \<and> build_ring collinear = Some collinear"
    by (simp add: script_simps grid_simps)
  note inv = ingestion_invariant [of grid_lib mixed_water collinear "(False, [])"
      "water_way collinear" collinear "[water_way big_square]" "[water_way open_square]"]
  from inv m have "is_valid grid_lib (True, [(0, 0)]) \<and> \<not> is_empty grid_lib (True, [(0, 0)])"
    by blast
  moreover from inv c have t: "try_polygon grid_lib collinear = Some []" by blast
  moreover from inv g t have "water_polys grid_lib ([water_way big_square] @ water_way collinear # [water_way open_square])
       = water_polys grid_lib [water_way big_square] @ water_polys grid_lib [water_way open_square]"
    by blast
  ultimately show ?thesis using w by blast
qed

section \<open>Repairing a geometry\<close>

text \<open>
  C5 (as the spec states it, refuted): a repair whose buffered result is still invalid or
  is empty is said to fail with UnrepairableGeometry. The scripts look at nothing after
  \<^verbatim>\<open>buffer(0)\<close>: a ring without area gives an invalid polygon whose buffer is empty, and
  the empty geometry is what the repair returns.
\<close>

theorem repair_returns_empty_counterexample:
  "Polygon grid_lib collinear = Some (False, [])
   \<and> \<not> is_valid grid_lib (False, [])
   \<and> repair grid_lib (False, []) = Inr (True, [])
   \<and> is_empty grid_lib (True, [])"
  by (simp add: script_simps grid_simps)

text \<open>
  C5 (amended): if \<open>p\<close> is valid the repair returns \<open>p\<close> unchanged; otherwise it
  returns the zero-distance buffer of \<open>p\<close> as it comes, valid or not, empty or not. The
  only failure is an exception raised by \<^verbatim>\<open>buffer\<close> itself.
\<close>

theorem repair_contract:
  "(is_valid L p \<longrightarrow> repair L p = Inr p)
   \<and> (\<not> is_valid L p \<longrightarrow> (\<forall>q. buffer L p 0 = Some q \<longrightarrow> repair L p = Inr q))
   \<and> (\<not> is_valid L p \<and> buffer L p 0 = None \<longrightarrow> repair L p = Inl ShapelyError)"
  by (simp add: repair_def)

theorem repair_contract_witness:
  "repair grid_lib (True, [(0, 0)]) = Inr (True, [(0, 0)])
   \<and> repair grid_lib (False, [(0, 0)]) = Inr (True, [(0, 0)])"
proof -
  have v: "is_valid grid_lib (True, [(0, 0)])" and i: "\<not> is_valid grid_lib (False, [(0, 0)])"
    and b: "buffer grid_lib (False, [(0, 0)]) 0 = Some (True, [(0, 0)])"
    by (simp_all add: grid_simps)
  from repair_contract [of grid_lib "(True, [(0, 0)])"] v
  have "repair grid_lib (True, [(0, 0)]) = Inr (True, [(0, 0)])" by blast
  moreover from repair_contract [of grid_lib "(False, [(0, 0)])"] i b
  have "repair grid_lib (False, [(0, 0)]) = Inr (True, [(0, 0)])" by blast
  ultimately show ?thesis by blast
qed

section \<open>No boundary, no candidates\<close>

text \<open>
  C8 (the scripts at the failing input): on a response without elements,
  show_land_outline.py raises its RuntimeError inside \<^verbatim>\<open>fetch_place_boundary\<close>, after the
  two messages printed before it and before any filtering, union or intersection.
  sample.py does not: its \<^verbatim>\<open>fetch_place_boundary\<close> returns \<^verbatim>\<open>None\<close>, and the run ends
  in \<^verbatim>\<open>fetch_water\<close> with the AttributeError of \<^verbatim>\<open>None.bounds\<close>.
\<close>

theorem no_boundary_element:
  "sample_fetch_place_boundary L (Some []) = Inr None
   \<and> land_only_boundary L (Some []) wdata = Inl AttributeError
   \<and> fetch_place_boundary L (Some []) = Inl RuntimeError
   \<and> main L land_gdf (Some []) = ([LoadingLand, FetchingBoundary], Inl RuntimeError)"
  by (simp add: script_simps)




section \<open>Reading one element\<close>

text \<open>
  C9 (the script at the failing inputs): a relation that carries a ring under a member way
  and a ring on itself goes through both blocks of the loop, which are two \<^verbatim>\<open>if\<close>
  statements and not an \<^verbatim>\<open>if\<close> and an \<^verbatim>\<open>elif\<close>: each strategy appends its polygon, and
  the one element yields two. And when the constructor raises in the first block, its
  \<^verbatim>\<open>continue\<close> leaves the element before the second block is tried: the good ring on the
  element itself is lost.
\<close>

theorem both_shapes_two_polygons:
  "members_strategy grid_lib both_shapes = Some [(True, [(0, 0)])]
   \<and> geometry_strategy grid_lib both_shapes = Some [(True, [(0, 0)])]
   \<and> boundary_geoms grid_lib [both_shapes] = [(True, [(0, 0)]), (True, [(0, 0)])]
   \<and> length (boundary_geoms grid_lib [both_shapes]) = 2
   \<and> members_strategy grid_lib point_and_shape = None
   \<and> geometry_strategy grid_lib point_and_shape = Some [(True, [(0, 0)])]
   \<and> boundary_geoms grid_lib [point_and_shape] = []"
  by (simp add: script_simps grid_simps)

section \<open>Filtering the land polygons\<close>

lemma mask_select: "map fst (filter snd (zip xs (map f xs))) = filter f xs"
  by (induction xs) simp_all

lemma prefilter_filter:
  "prefilter L land_gdf B = filter (\<lambda>g. intersects L g (box L (bounds L B))) land_gdf"
  by (simp add: prefilter_def mask_select)

text \<open>
  C7 (as the spec states it, refuted): the filter is said to keep every candidate whose
  bounding box meets the target box. The script tests the candidate itself against the
  box polygon (\<^verbatim>\<open>land_gdf.intersects(bbox_poly)\<close>): an L-shaped polygon around the
  boundary has a bounding box that meets the target box, does not touch the box, and is
  dropped.
\<close>

theorem prefilter_bbox_counterexample:
  "intersects grid_lib (box grid_lib (bounds grid_lib ell)) (box grid_lib (bounds grid_lib corner))
   \<and> \<not> intersects grid_lib ell (box grid_lib (bounds grid_lib corner))
   \<and> prefilter grid_lib [ell] corner = []"
  by (simp add: script_simps grid_simps)

text \<open>
  C7 (amended): the filter keeps, in their order, exactly the candidates whose own
  geometry intersects the rectangle spanned by the boundary's bounds, by shapely's exact
  \<^verbatim>\<open>intersects\<close> test against that rectangle (not against the boundary, and not between
  bounding boxes).
\<close>

theorem prefilter_exact:
  "prefilter L land_gdf B = filter (\<lambda>g. intersects L g (box L (bounds L B))) land_gdf
   \<and> (g \<in> set (prefilter L land_gdf B)
        \<longleftrightarrow> g \<in> set land_gdf \<and> intersects L g (box L (bounds L B)))"
  by (simp add: prefilter_filter)

section \<open>The boolean step and the area\<close>





section \<open>Validity of what the runs return\<close>

text \<open>
  C4 (as the spec states it, refuted): the returned geometry is said to be always valid
  and not empty, repaired after every operation. sample.py returns the difference as it
  comes, and the boundary as it was built when there is no water: with water that covers
  the boundary the run returns an empty geometry, and with a figure of eight for a
  boundary and no water it returns an invalid one.
\<close>

theorem empty_result_counterexample:
  "land_only_boundary grid_lib (Some [relation_of_ways unit_square]) (Some [water_way big_square])
     = Inr (Some (True, []))
   \<and> is_empty grid_lib (True, [])
   \<and> (\<exists>g. land_only_boundary signed_lib (Some [relation_of_ways figure_eight]) (Some [])
             = Inr (Some g)
           \<and> \<not> is_valid signed_lib g)"
  by (simp add: script_simps grid_simps)

lemma repair_valid:
  assumes "\<forall>g r. buffer L g 0 = Some r \<longrightarrow> is_valid L r" and "repair L g = Inr r"
  shows "is_valid L r"
  using assms by (auto simp: repair_def split: if_splits option.splits)

lemma main_repairs:
  assumes "main L land_gdf data = (printed, Inr (boundary_geom, clamped_geom))"
  shows "\<exists>fetched clamped. repair L fetched = Inr boundary_geom \<and> repair L clamped = Inr clamped_geom"
  using assms by (auto simp: main_def Let_def split: sum.splits prod.splits)

text \<open>
  C4 (amended): show_land_outline.py repairs the boundary once after fetching it and the
  clamped geometry once after the union and intersection stage, so both geometries it
  returns are valid whenever \<^verbatim>\<open>buffer(0)\<close> returns valid geometry; sample.py, when the
  boundary and the water union are both non-empty, repairs the two just before the
  difference, and what it returns then is the difference of the two repaired operands.
\<close>

theorem pipeline_repairs:
  assumes "\<forall>g r. buffer L g 0 = Some r \<longrightarrow> is_valid L r"
  shows "(main L land_gdf data = (printed, Inr (boundary_geom, clamped_geom)) \<longrightarrow>
            is_valid L boundary_geom \<and> is_valid L clamped_geom)
         \<and> (subtract_water L (Some b) (Some w) = Inr (Some land) \<and> \<not> is_empty L b \<and> \<not> is_empty L w \<longrightarrow>
              (\<exists>b' w'. repair L b = Inr b' \<and> repair L w = Inr w' \<and> is_valid L b' \<and> is_valid L w'
                 \<and> difference L b' w' = Some land))"
proof -
  have "is_valid L boundary_geom \<and> is_valid L clamped_geom"
    if "main L land_gdf data = (printed, Inr (boundary_geom, clamped_geom))"
    using main_repairs [OF that] repair_valid [OF assms] by blast
  moreover have "\<exists>b' w'. repair L b = Inr b' \<and> repair L w = Inr w' \<and> is_valid L b' \<and> is_valid L w'
                 \<and> difference L b' w' = Some land"
    if "subtract_water L (Some b) (Some w) = Inr (Some land) \<and> \<not> is_empty L b \<and> \<not> is_empty L w"
  proof -
    from that obtain b' w' where "repair L b = Inr b'" "repair L w = Inr w'"
      "difference L b' w' = Some land"
      by (auto simp: subtract_water_def truthy_def split: sum.splits option.splits)
    then show ?thesis using repair_valid [OF assms] by blast
  qed
  ultimately show ?thesis by blast
qed

theorem pipeline_repairs_witness:
  "main grid_lib [left_column] (Some [relation_of_ways unit_square])
     = ([LoadingLand, FetchingBoundary, FilteringBBox, Intersecting, MapSaved],
        Inr ((True, [(0, 0)]), (True, [(0, 0)])))
   \<and> is_valid grid_lib (True, [(0, 0)])
   \<and> subtract_water grid_lib (Some broken_row) (Some (True, [(0, 0)])) = Inr (Some (True, [(1, 0)]))
   \<and> repair grid_lib broken_row = Inr (True, [(0, 0), (1, 0)])"
proof -
  have c: "\<forall>g r. buffer grid_lib g 0 = Some r \<longrightarrow> is_valid grid_lib r"
    by (auto simp: grid_lib_def)
  have m: "main grid_lib [left_column] (Some [relation_of_ways unit_square])
     = ([LoadingLand, FetchingBoundary, FilteringBBox, Intersecting, MapSaved],
        Inr ((True, [(0, 0)]), (True, [(0, 0)])))"
    by (simp add: script_simps grid_simps)
  have s: "subtract_water grid_lib (Some broken_row) (Some (True, [(0, 0)])) = Inr (Some (True, [(1, 0)]))
           \<and> \<not> is_empty grid_lib broken_row \<and> \<not> is_empty grid_lib (True, [(0, 0)])"
    and r: "repair grid_lib broken_row = Inr (True, [(0, 0), (1, 0)])"
    by (simp_all add: script_simps grid_simps)
  from pipeline_repairs [OF c, of "[left_column]" "Some [relation_of_ways unit_square]"
      "[LoadingLand, FetchingBoundary, FilteringBBox, Intersecting, MapSaved]"
      "(True, [(0, 0)])" "(True, [(0, 0)])" broken_row "(True, [(0, 0)])" "(True, [(1, 0)])"] m s r
  show ?thesis by blast
qed

section \<open>When the batch union raises\<close>

text \<open>
  C6 (as the spec states it, refuted): a raising batch union is said to be recovered,
  never fatally. In sample.py nothing catches it; in show_land_outline.py the \<^verbatim>\<open>except\<close>
  branch ends with another batch union outside any \<^verbatim>\<open>try\<close>. With a union that raises,
  both runs end in the exception.
\<close>

theorem union_failure_fatal_counterexample:
  "unary_union union_fails_lib (water_polys union_fails_lib [water_way unit_square]) = None
   \<and> fetch_water union_fails_lib (Some (True, [(0, 0)])) (Some [water_way unit_square])
       = Inl ShapelyError
   \<and> unary_union union_fails_lib [left_column] = None
   \<and> main union_fails_lib [left_column] (Some [relation_of_ways unit_square])
       = ([LoadingLand, FetchingBoundary, FilteringBBox, Intersecting, UnionFailed],
          Inl ShapelyError)"
  by (simp add: script_simps grid_simps)

lemma per_feature_parts_append:
  "per_feature_parts L B (xs @ ys) = per_feature_parts L B xs @ per_feature_parts L B ys"
  by (induction xs) (simp_all split: option.splits)

lemma set_per_feature_parts:
  "set (per_feature_parts L B gs)
     = {p. \<exists>g \<in> set gs. intersection L g B = Some p \<and> \<not> is_empty L p}"
  by (induction gs) (auto split: option.splits)

text \<open>
  C6 (amended): in show_land_outline.py, if the batch union of a non-empty candidate
  collection raises, the run prints the failure and recovers feature by feature: each
  candidate is intersected with the boundary on its own, a candidate whose intersection
  raises or is empty is skipped without stopping the others, and the parts that remain
  are united in one batch union whose result, when it returns, is the clamped geometry;
  with no part left the boundary itself is. sample.py has no recovery: there a raising
  batch union ends the run.
\<close>

theorem union_failure_recovery:
  "(land_subset \<noteq> [] \<and> unary_union L land_subset = None \<longrightarrow>
      clamp_stage L B land_subset = ([UnionFailed], clamp_fallback L B land_subset))
   \<and> set (per_feature_parts L B land_subset)
       = {p. \<exists>g \<in> set land_subset. intersection L g B = Some p \<and> \<not> is_empty L p}
   \<and> (intersection L g B = None \<longrightarrow>
        per_feature_parts L B (xs @ g # ys) = per_feature_parts L B xs @ per_feature_parts L B ys)
   \<and> (per_feature_parts L B land_subset = [] \<longrightarrow> clamp_fallback L B land_subset = Inr B)
   \<and> (per_feature_parts L B land_subset \<noteq> []
        \<and> unary_union L (per_feature_parts L B land_subset) = Some u \<longrightarrow>
        clamp_fallback L B land_subset = Inr u)
   \<and> (water_polys L els \<noteq> [] \<and> unary_union L (water_polys L els) = None \<longrightarrow>
        fetch_water L (Some b) (Some els) = Inl ShapelyError)"
proof -
  have "clamp_stage L B land_subset = ([UnionFailed], clamp_fallback L B land_subset)"
    if "land_subset \<noteq> [] \<and> unary_union L land_subset = None"
    using that by (simp add: clamp_stage_def land_union_of_def)
  moreover have "per_feature_parts L B (xs @ g # ys)
      = per_feature_parts L B xs @ per_feature_parts L B ys" if "intersection L g B = None"
    using that by (simp add: per_feature_parts_append)
  moreover have "clamp_fallback L B land_subset = Inr B" if "per_feature_parts L B land_subset = []"
    using that by (simp add: clamp_fallback_def)
  moreover have "clamp_fallback L B land_subset = Inr u"
    if "per_feature_parts L B land_subset \<noteq> []
        \<and> unary_union L (per_feature_parts L B land_subset) = Some u"
    using that by (simp add: clamp_fallback_def)
  moreover have "fetch_water L (Some b) (Some els) = Inl ShapelyError"
    if "water_polys L els \<noteq> [] \<and> unary_union L (water_polys L els) = None"
    using that by (simp add: fetch_water_def)
  ultimately show ?thesis using set_per_feature_parts [of L B land_subset] by blast
qed

theorem union_failure_recovery_witness:
  "clamp_stage strict_lib (True, [(0, 0)]) [left_column, broken_row]
     = ([UnionFailed], Inr (True, [(0, 0)]))
   \<and> per_feature_parts strict_lib (True, [(0, 0)]) ([left_column] @ broken_row # [])
       = [(True, [(0, 0)])]
   \<and> clamp_fallback strict_lib (True, [(0, 0)]) [broken_row] = Inr (True, [(0, 0)])"
proof -
  have u: "[left_column, broken_row] \<noteq> [] \<and> unary_union strict_lib [left_column, broken_row] = None"
    and x: "intersection strict_lib broken_row (True, [(0, 0)]) = None"
    and p: "per_feature_parts strict_lib (True, [(0, 0)]) [left_column, broken_row] \<noteq> []
        \<and> unary_union strict_lib (per_feature_parts strict_lib (True, [(0, 0)]) [left_column, broken_row])
            = Some (True, [(0, 0)])"
    and l: "per_feature_parts strict_lib (True, [(0, 0)]) [left_column] = [(True, [(0, 0)])]"
    and e: "per_feature_parts strict_lib (True, [(0, 0)]) [broken_row] = []"
    by (simp_all add: script_simps grid_simps)
  note a = union_failure_recovery [of "[left_column, broken_row]" strict_lib "(True, [(0, 0)])"
      broken_row "[left_column]" "[]" "(True, [(0, 0)])"]
  note b = union_failure_recovery [of "[broken_row]" strict_lib "(True, [(0, 0)])"]
  from a u p have "clamp_stage strict_lib (True, [(0, 0)]) [left_column, broken_row]
     = ([UnionFailed], Inr (True, [(0, 0)]))" by simp
  moreover from a x l have "per_feature_parts strict_lib (True, [(0, 0)]) ([left_column] @ broken_row # [])
       = [(True, [(0, 0)])]" by simp
  moreover from b e have "clamp_fallback strict_lib (True, [(0, 0)]) [broken_row] = Inr (True, [(0, 0)])"
    by blast
  ultimately show ?thesis by blast
qed

end
